theory Spec2Isabelle
  imports Complex_Main "HOL-Library.Word"
begin

unbundle bit_operations_syntax

section \<open>The event layer of \<^verbatim>\<open>rocclr/hip_event.cpp\<close>\<close>

text \<open>
  The theory embeds the member functions of \<^verbatim>\<open>hip::Event\<close> and
  \<^verbatim>\<open>ihipEventCreateWithFlags\<close>. The command-queue runtime underneath
  (\<^verbatim>\<open>amd::Event\<close>, \<^verbatim>\<open>amd::Command\<close>, \<^verbatim>\<open>amd::Marker\<close>,
  \<^verbatim>\<open>amd::HostQueue\<close>) is not part of the sources: every call into it is a field
  of the record \<open>runtime\<close>, a parameter of the model, acting on a state \<open>'w\<close> of which
  nothing is assumed.

  Locks. Modelled from the spec: \<^verbatim>\<open>amd::ScopedLock\<close> is not among the sources;
  section 3 of the spec has each event carry an exclusive lock of its own. A scoped lock
  is taken where it is declared, when no other thread holds it, and is held to the end of
  the call. A call of \<open>query\<close>, \<open>synchronize\<close> or \<open>streamWait\<close>
  is given \<open>held\<close>, which says of each event whether another thread holds its lock: the
  call then waits at the lock. \<open>elapsedTime\<close> and \<open>addMarker\<close> are the code a thread
  runs from the point where it has the locks; the two lock acquisitions of
  \<^verbatim>\<open>Event::elapsedTime\<close> (lines 60 and 78) are steps of the thread machine
  \<open>elapsedTime_step\<close>.
\<close>

subsection \<open>Data\<close>

datatype hipError_t =
    hipSuccess
  | hipErrorInvalidValue
  | hipErrorOutOfMemory
  | hipErrorInvalidHandle
  | hipErrorNotReady
  | hipErrorLaunchOutOfResources

text \<open>
  Addresses. An \<^verbatim>\<open>amd::Command\<close> and the \<^verbatim>\<open>amd::Event\<close> it carries are one
  object seen through \<^verbatim>\<open>command->event()\<close> and \<^verbatim>\<open>event->command()\<close>; one
  address type stands for both. A nullable pointer is an \<open>option\<close>.
\<close>

type_synonym handle = nat
type_synonym queue_ptr = nat
type_synonym event_ptr = nat
type_synonym slot_ptr = nat

text \<open>The two fields of \<^verbatim>\<open>profilingInfo()\<close> the file reads, both \<^verbatim>\<open>uint64_t\<close>.
  (A name cannot end in an underscore here, hence the primes.)\<close>

record ProfilingInfo =
  start_' :: "64 word"
  end_' :: "64 word"

text \<open>The data members of \<^verbatim>\<open>hip::Event\<close> (\<^verbatim>\<open>lock_\<close> left out).\<close>

record Event =
  flags :: "32 word"
  event_' :: "handle option"
  recorded_' :: bool

text \<open>The event objects in memory, by address: \<^verbatim>\<open>this == &eStop\<close> compares addresses.\<close>

type_synonym heap = "event_ptr \<Rightarrow> Event"

text \<open>
  The flag constants of the public header, which is not among the sources: their values
  are parameters.
\<close>

record flag_consts =
  hipEventDefault :: "32 word"
  hipEventBlockingSync :: "32 word"
  hipEventDisableTiming :: "32 word"
  hipEventReleaseToDevice :: "32 word"
  hipEventReleaseToSystem :: "32 word"

text \<open>
  The runtime under the event layer, as the file calls it. \<open>awaitCompletion\<close> is the one
  blocking call: \<open>None\<close> when it never returns. A \<^verbatim>\<open>new\<close> expression gives the
  address, or \<open>None\<close> for a null pointer. \<open>type\<close> is \<^verbatim>\<open>command->type()\<close>,
  \<open>queue\<close> is \<^verbatim>\<open>command().queue()\<close>, \<open>profiling_enabled\<close> is
  \<^verbatim>\<open>queue->properties().test(CL_QUEUE_PROFILING_ENABLE)\<close>.
\<close>

record 'w runtime =
  CL_COMPLETE :: int
  kMarkerDisableFlush :: bool
  status :: "'w \<Rightarrow> handle \<Rightarrow> int"
  notifyCmdQueue :: "'w \<Rightarrow> handle \<Rightarrow> bool \<times> 'w"
  awaitCompletion :: "'w \<Rightarrow> handle \<Rightarrow> 'w option"
  profilingInfo :: "'w \<Rightarrow> handle \<Rightarrow> ProfilingInfo"
  queue :: "'w \<Rightarrow> handle \<Rightarrow> queue_ptr"
  type :: "'w \<Rightarrow> handle \<Rightarrow> nat"
  new_Marker :: "'w \<Rightarrow> queue_ptr \<Rightarrow> bool \<Rightarrow> handle list \<Rightarrow> handle option \<times> 'w"
  new_ProfileMarker :: "'w \<Rightarrow> queue_ptr \<Rightarrow> bool \<Rightarrow> handle option \<times> 'w"
  enqueue :: "'w \<Rightarrow> handle \<Rightarrow> 'w"
  release :: "'w \<Rightarrow> handle \<Rightarrow> 'w"
  profiling_enabled :: "'w \<Rightarrow> queue_ptr \<Rightarrow> bool"
  getLastQueuedCommand :: "'w \<Rightarrow> queue_ptr \<Rightarrow> bool \<Rightarrow> handle option \<times> 'w"

text \<open>
  Single-precision arithmetic is not interpreted: the conversion from \<^verbatim>\<open>int64_t\<close>,
  the division and the two literals are parameters over a type \<open>'f\<close> of floats.
\<close>

record 'f float_ops =
  float_of_int64 :: "int \<Rightarrow> 'f"
  float_div :: "'f \<Rightarrow> 'f \<Rightarrow> 'f"
  float_1000000 :: "'f"
  float_0 :: "'f"

text \<open>What stops a call from returning a value: a wait of the runtime that never ends, a
  null pointer dereferenced, or the lock of an event that another thread holds.\<close>

datatype fault = NeverReturns | NullDereference | WaitsForLock event_ptr

subsection \<open>Creation\<close>

text \<open>
  Modelled from the spec: the constructor of \<^verbatim>\<open>hip::Event\<close> is declared in
  \<^verbatim>\<open>hip_event.hpp\<close>, which is not among the sources. The spec's lifecycle has an
  event created with the flags given, a null handle and \<open>recorded\<close> false.
\<close>

definition new_Event :: "32 word \<Rightarrow> Event" where
  "new_Event fl = \<lparr>flags = fl, event_' = None, recorded_' = False\<rparr>"

text \<open>
  \<^verbatim>\<open>ihipEventCreateWithFlags(hipEvent_t* event, unsigned flags)\<close>. \<open>alloc\<close> is what
  \<^verbatim>\<open>new hip::Event\<close> yields. The second component of the result is the store
  through \<^verbatim>\<open>event\<close>, if one is made.
\<close>

definition illegalFlags :: "flag_consts \<Rightarrow> 32 word \<Rightarrow> bool" where
  "illegalFlags fc fl =
     (let supportedFlags = hipEventDefault fc OR hipEventBlockingSync fc OR
                           hipEventDisableTiming fc OR hipEventReleaseToDevice fc OR
                           hipEventReleaseToSystem fc;
          releaseFlags = hipEventReleaseToDevice fc OR hipEventReleaseToSystem fc
      in (fl AND NOT supportedFlags) \<noteq> 0 \<or> (fl AND releaseFlags) = releaseFlags)"

definition ihipEventCreateWithFlags ::
  "flag_consts \<Rightarrow> event_ptr option \<Rightarrow> heap \<Rightarrow> slot_ptr option \<Rightarrow> 32 word \<Rightarrow>
   hipError_t \<times> (slot_ptr \<times> event_ptr) option \<times> heap" where
  "ihipEventCreateWithFlags fc alloc hp event fl =
     (case event of
        None \<Rightarrow> (hipErrorInvalidValue, None, hp)
      | Some slot \<Rightarrow>
          if \<not> illegalFlags fc fl then
            (case alloc of
               None \<Rightarrow> (hipErrorOutOfMemory, None, hp)
             | Some e \<Rightarrow> (hipSuccess, Some (slot, e), hp(e := new_Event fl)))
          else (hipErrorInvalidValue, None, hp))"

text \<open>The values of the flag constants in HIP's public header, for concrete runs.\<close>

definition hip_flags :: flag_consts where
  "hip_flags = \<lparr>hipEventDefault = 0, hipEventBlockingSync = 1, hipEventDisableTiming = 2,
                 hipEventReleaseToDevice = 0x40000000, hipEventReleaseToSystem = 0x80000000\<rparr>"

subsection \<open>Readiness, query, synchronize\<close>

text \<open>\<^verbatim>\<open>Event::ready()\<close>, on the handle \<^verbatim>\<open>event_\<close> points to.\<close>

definition ready :: "'w runtime \<Rightarrow> 'w \<Rightarrow> handle \<Rightarrow> bool \<times> 'w" where
  "ready rt w h =
     (let w1 = (if status rt w h \<noteq> CL_COMPLETE rt then snd (notifyCmdQueue rt w h) else w)
      in (status rt w1 h = CL_COMPLETE rt, w1))"

text \<open>
  \<^verbatim>\<open>Event::query()\<close> and \<^verbatim>\<open>Event::synchronize()\<close>. Both start with
  \<^verbatim>\<open>amd::ScopedLock lock(lock_)\<close> (lines 36 and 47); \<open>synchronize\<close> keeps the lock
  for the whole of \<^verbatim>\<open>awaitCompletion()\<close>.
\<close>

definition query ::
  "'w runtime \<Rightarrow> (event_ptr \<Rightarrow> bool) \<Rightarrow> heap \<Rightarrow> 'w \<Rightarrow> event_ptr \<Rightarrow> fault + hipError_t \<times> 'w" where
  "query rt held hp w this =
     (if held this then Inl (WaitsForLock this)
      else
        (case event_' (hp this) of
           None \<Rightarrow> Inr (hipSuccess, w)
         | Some h \<Rightarrow>
             (case ready rt w h of
                (r, w1) \<Rightarrow> Inr (if r then hipSuccess else hipErrorNotReady, w1))))"

definition synchronize ::
  "'w runtime \<Rightarrow> (event_ptr \<Rightarrow> bool) \<Rightarrow> heap \<Rightarrow> 'w \<Rightarrow> event_ptr \<Rightarrow> fault + hipError_t \<times> 'w" where
  "synchronize rt held hp w this =
     (if held this then Inl (WaitsForLock this)
      else
        (case event_' (hp this) of
           None \<Rightarrow> Inr (hipSuccess, w)
         | Some h \<Rightarrow>
             (case awaitCompletion rt w h of
                None \<Rightarrow> Inl NeverReturns
              | Some w1 \<Rightarrow> Inr (hipSuccess, w1))))"

subsection \<open>Elapsed time\<close>

text \<open>\<^verbatim>\<open>static_cast<float>(static_cast<int64_t>(d))/1000000.f\<close> for a \<^verbatim>\<open>uint64_t\<close>
  difference \<open>d\<close>: the subtraction wraps modulo \<open>2^64\<close> and \<open>sint\<close> reads the result as
  two's complement.\<close>

definition ns_to_ms :: "'f float_ops \<Rightarrow> 64 word \<Rightarrow> 'f" where
  "ns_to_ms fo d = float_div fo (float_of_int64 fo (sint d)) (float_1000000 fo)"

text \<open>
  \<^verbatim>\<open>Event::elapsedTime(Event& eStop, float& ms)\<close>. The second component of a returned
  triple is the value stored into \<^verbatim>\<open>ms\<close>, if one is stored.
\<close>

definition elapsedTime ::
  "'w runtime \<Rightarrow> 'f float_ops \<Rightarrow> flag_consts \<Rightarrow> heap \<Rightarrow> 'w \<Rightarrow> event_ptr \<Rightarrow> event_ptr \<Rightarrow>
   fault + hipError_t \<times> 'f option \<times> 'w" where
  "elapsedTime rt fo fc hp w this eStop =
     (if this = eStop then
        (case event_' (hp this) of
           None \<Rightarrow> Inr (hipErrorInvalidHandle, None, w)
         | Some h \<Rightarrow>
             if flags (hp this) AND hipEventDisableTiming fc \<noteq> 0
             then Inr (hipErrorInvalidHandle, None, w)
             else
               (case ready rt w h of
                  (r, w1) \<Rightarrow>
                    if \<not> r then Inr (hipErrorNotReady, None, w1)
                    else Inr (hipSuccess, Some (float_0 fo), w1)))
      else
        (case event_' (hp this) of
           None \<Rightarrow> Inr (hipErrorInvalidHandle, None, w)
         | Some h \<Rightarrow>
             (case event_' (hp eStop) of
                None \<Rightarrow> Inr (hipErrorInvalidHandle, None, w)
              | Some g \<Rightarrow>
                  if (flags (hp this) OR flags (hp eStop)) AND hipEventDisableTiming fc \<noteq> 0
                  then Inr (hipErrorInvalidHandle, None, w)
                  else
                    (case ready rt w h of
                       (r1, w1) \<Rightarrow>
                         if \<not> r1 then Inr (hipErrorNotReady, None, w1)
                         else
                           (case ready rt w1 g of
                              (r2, w2) \<Rightarrow>
                                if \<not> r2 then Inr (hipErrorNotReady, None, w2)
                                else if h \<noteq> g \<and> recorded_' (hp this) \<and> recorded_' (hp eStop) then
                                  Inr (hipSuccess,
                                       Some (ns_to_ms fo (end_' (profilingInfo rt w2 g) -
                                                          end_' (profilingInfo rt w2 h))),
                                       w2)
                                else if h = g \<and> (recorded_' (hp this) \<or> recorded_' (hp eStop)) then
                                  (case new_Marker rt w2 (queue rt w2 h) (kMarkerDisableFlush rt) [] of
                                     (None, w3) \<Rightarrow> Inl NullDereference
                                   | (Some command, w3) \<Rightarrow>
                                       (case awaitCompletion rt (enqueue rt w3 command) command of
                                          None \<Rightarrow> Inl NeverReturns
                                        | Some w5 \<Rightarrow>
                                            Inr (hipSuccess,
                                                 Some (ns_to_ms fo
                                                         (end_' (profilingInfo rt w5 command) -
                                                          end_' (profilingInfo rt w5 h))),
                                                 release rt w5 command)))
                                else
                                  Inr (hipSuccess,
                                       Some (ns_to_ms fo (end_' (profilingInfo rt w2 g) -
                                                          start_' (profilingInfo rt w2 h))),
                                       w2))))))"

subsection \<open>Stream wait and marker attachment\<close>

text \<open>\<^verbatim>\<open>Event::streamWait(amd::HostQueue* hostQueue, uint flags)\<close>. The test of line 117
  runs before the lock is taken at line 121.\<close>

definition streamWait ::
  "'w runtime \<Rightarrow> (event_ptr \<Rightarrow> bool) \<Rightarrow> heap \<Rightarrow> 'w \<Rightarrow> event_ptr \<Rightarrow> queue_ptr \<Rightarrow> 32 word \<Rightarrow>
   fault + hipError_t \<times> 'w" where
  "streamWait rt held hp w this hostQueue fl =
     (case event_' (hp this) of
        None \<Rightarrow> Inr (hipSuccess, w)
      | Some h \<Rightarrow>
          if queue rt w h = hostQueue then Inr (hipSuccess, w)
          else if held this then Inl (WaitsForLock this)
          else
            (case notifyCmdQueue rt w h of
               (ok, w1) \<Rightarrow>
                 if \<not> ok then Inr (hipErrorLaunchOutOfResources, w1)
                 else
                   (case new_Marker rt w1 hostQueue (kMarkerDisableFlush rt) [h] of
                      (None, w2) \<Rightarrow> Inr (hipErrorOutOfMemory, w2)
                    | (Some command, w2) \<Rightarrow>
                        Inr (hipSuccess, release rt (enqueue rt w2 command) command))))"

text \<open>
  The first half of \<^verbatim>\<open>Event::addMarker\<close> (lines 143 to 160): the command whose event
  is to be bound, and the state after finding or enqueuing it.
\<close>

definition freshMarker :: "'w runtime \<Rightarrow> 'w \<Rightarrow> queue_ptr \<Rightarrow> fault + handle \<times> 'w" where
  "freshMarker rt w q =
     (case new_Marker rt w q (kMarkerDisableFlush rt) [] of
        (None, w1) \<Rightarrow> Inl NullDereference
      | (Some command, w1) \<Rightarrow> Inr (command, enqueue rt w1 command))"

definition markerCommand ::
  "'w runtime \<Rightarrow> 'w \<Rightarrow> queue_ptr \<Rightarrow> handle option \<Rightarrow> fault + handle \<times> 'w" where
  "markerCommand rt w q command =
     (if profiling_enabled rt w q then
        (case command of
           Some c \<Rightarrow> Inr (c, w)
         | None \<Rightarrow>
             (case getLastQueuedCommand rt w q True of
                (None, w1) \<Rightarrow> freshMarker rt w1 q
              | (Some c, w1) \<Rightarrow>
                  if type rt w1 c = 0 then freshMarker rt (release rt w1 c) q
                  else Inr (c, w1)))
      else
        (case command of
           Some c \<Rightarrow> Inr (c, w)
         | None \<Rightarrow>
             (case new_ProfileMarker rt w q False of
                (None, w1) \<Rightarrow> Inl NullDereference
              | (Some c, w1) \<Rightarrow> Inr (c, enqueue rt w1 c))))"

text \<open>\<^verbatim>\<open>Event::addMarker(amd::HostQueue* queue, amd::Command* command, bool record)\<close>.\<close>

definition addMarker ::
  "'w runtime \<Rightarrow> heap \<Rightarrow> 'w \<Rightarrow> event_ptr \<Rightarrow> queue_ptr \<Rightarrow> handle option \<Rightarrow> bool \<Rightarrow>
   fault + heap \<times> 'w" where
  "addMarker rt hp w this q command record =
     (case markerCommand rt w q command of
        Inl f \<Rightarrow> Inl f
      | Inr (c, w1) \<Rightarrow>
          if event_' (hp this) = Some c then Inr (hp, w1)
          else
            (let w2 = (case event_' (hp this) of Some old \<Rightarrow> release rt w1 old | None \<Rightarrow> w1)
             in Inr (hp(this := (hp this)\<lparr>event_' := Some c, recorded_' := record\<rparr>), w2)))"

subsection \<open>Two threads in \<^verbatim>\<open>Event::elapsedTime\<close>\<close>

text \<open>
  The lock acquisitions of \<^verbatim>\<open>Event::elapsedTime\<close>, thread by thread. A thread is at
  line 60 (about to take \<^verbatim>\<open>lock_\<close> of the start event), at line 78 (holding it, about
  to take \<^verbatim>\<open>eStop.lock_\<close>; only when the two events are different objects), in the body
  (lines 62 to 77, or 80 to 113, which \<open>elapsedTime\<close> is), or returned, its scoped locks
  given back. A lock is taken only when no thread owns it. \<open>elapsedTime_step\<close> is one
  step of thread \<open>t\<close>, whose call has the arguments \<open>args t\<close>; \<open>None\<close> when the thread
  cannot move. \<open>run\<close> lets the threads step in the order of a schedule; a thread that
  cannot move when its turn comes stays where it is.
\<close>

datatype thread = T1 | T2

datatype pc = Line60 | Line78 | Body | Returned

record ('w, 'f) machine =
  owner :: "event_ptr \<Rightarrow> thread option"
  world :: "'w"
  pos :: "thread \<Rightarrow> pc"
  returned :: "thread \<Rightarrow> (hipError_t \<times> 'f option) option"

definition elapsedTime_step ::
  "'w runtime \<Rightarrow> 'f float_ops \<Rightarrow> flag_consts \<Rightarrow> heap \<Rightarrow> (thread \<Rightarrow> event_ptr \<times> event_ptr) \<Rightarrow>
   thread \<Rightarrow> ('w, 'f) machine \<Rightarrow> ('w, 'f) machine option" where
  "elapsedTime_step rt fo fc hp args t m =
     (case args t of
        (this, eStop) \<Rightarrow>
          (case pos m t of
             Line60 \<Rightarrow>
               (case owner m this of
                  Some u \<Rightarrow> None
                | None \<Rightarrow>
                    Some (m\<lparr>owner := (owner m)(this := Some t),
                            pos := (pos m)(t := if this = eStop then Body else Line78)\<rparr>))
           | Line78 \<Rightarrow>
               (case owner m eStop of
                  Some u \<Rightarrow> None
                | None \<Rightarrow>
                    Some (m\<lparr>owner := (owner m)(eStop := Some t), pos := (pos m)(t := Body)\<rparr>))
           | Body \<Rightarrow>
               (case elapsedTime rt fo fc hp (world m) this eStop of
                  Inl f \<Rightarrow> None
                | Inr (r, ms, w') \<Rightarrow>
                    Some (m\<lparr>owner := (owner m)(this := None, eStop := None),
                            world := w',
                            pos := (pos m)(t := Returned),
                            returned := (returned m)(t := Some (r, ms))\<rparr>))
           | Returned \<Rightarrow> None))"

definition run ::
  "'w runtime \<Rightarrow> 'f float_ops \<Rightarrow> flag_consts \<Rightarrow> heap \<Rightarrow> (thread \<Rightarrow> event_ptr \<times> event_ptr) \<Rightarrow>
   thread list \<Rightarrow> ('w, 'f) machine \<Rightarrow> ('w, 'f) machine" where
  "run rt fo fc hp args schedule m =
     fold (\<lambda>t m. case elapsedTime_step rt fo fc hp args t m of None \<Rightarrow> m | Some m' \<Rightarrow> m')
       schedule m"

text \<open>Both threads about to call, no lock owned.\<close>

definition start :: "'w \<Rightarrow> ('w, 'f) machine" where
  "start w = \<lparr>owner = (\<lambda>p. None), world = w, pos = (\<lambda>t. Line60), returned = (\<lambda>t. None)\<rparr>"

text \<open>Thread \<open>T1\<close> calls with \<open>(a, b)\<close>, thread \<open>T2\<close> with the two events exchanged.\<close>

definition reversed :: "event_ptr \<Rightarrow> event_ptr \<Rightarrow> thread \<Rightarrow> event_ptr \<times> event_ptr" where
  "reversed a b t = (case t of T1 \<Rightarrow> (a, b) | T2 \<Rightarrow> (b, a))"

subsection \<open>The wait of the runtime\<close>

text \<open>
  Modelled from the spec: \<^verbatim>\<open>awaitCompletion()\<close> is a call of the runtime, which is not
  among the sources. Sections 2 and 4.4 of the spec have it block until the handle's
  completion. \<open>wait_until_complete st target advance\<close> is such a wait, for a status function
  \<open>st\<close>, the status \<open>target\<close> of a complete handle and the progress \<open>advance\<close> the device makes while the caller waits;
  it has no value when the handle never completes.
\<close>

partial_function (option) wait_until_complete ::
  "('w \<Rightarrow> handle \<Rightarrow> int) \<Rightarrow> int \<Rightarrow> ('w \<Rightarrow> 'w) \<Rightarrow> 'w \<Rightarrow> handle \<Rightarrow> 'w option" where
  "wait_until_complete st target advance w h =
     (if st w h = target then Some w
      else wait_until_complete st target advance (advance w) h)"

subsection \<open>A reference runtime for concrete runs\<close>

text \<open>
  Modelled from the spec: the runtime (ROCclr's \<^verbatim>\<open>amd::Event\<close>, \<^verbatim>\<open>amd::Command\<close>,
  \<^verbatim>\<open>amd::Marker\<close> and \<^verbatim>\<open>amd::HostQueue\<close>) is not among the sources. The spec's
  sections 2, 3 and 6 describe a completion handle as reference counted, with a status, two
  timestamps and an owning queue, and a queue as knowing whether timing is enabled and which
  command it enqueued last. \<open>sim\<close> is such a state, and \<open>sim_runtime\<close> the calls on it:
  a marker is created with one reference (its creator's); looking up the last queued
  command with \<^verbatim>\<open>retain = true\<close> hands out one more reference, the one
  \<^verbatim>\<open>addMarker\<close> gives back by \<^verbatim>\<open>release()\<close> when it discards the result
  (lines 150 to 152) and keeps when it binds the handle; \<^verbatim>\<open>release()\<close> gives one back;
  a nudge succeeds and changes nothing; waiting for a command completes it. The general
  theorems below do not use \<open>sim_runtime\<close>: it serves concrete runs only.
\<close>

record sim =
  sim_status :: "handle \<Rightarrow> int"
  sim_info :: "handle \<Rightarrow> ProfilingInfo"
  sim_queue :: "handle \<Rightarrow> queue_ptr"
  sim_type :: "handle \<Rightarrow> nat"
  sim_waits :: "handle \<Rightarrow> handle list"
  sim_refs :: "handle \<Rightarrow> nat"
  sim_last :: "queue_ptr \<Rightarrow> handle option"
  sim_profiling :: "queue_ptr \<Rightarrow> bool"
  sim_next :: handle
  sim_clock :: "64 word"

definition sim_new :: "sim \<Rightarrow> queue_ptr \<Rightarrow> handle list \<Rightarrow> handle option \<times> sim" where
  "sim_new w q waits =
     (let c = sim_next w in
      (Some c,
       w\<lparr>sim_status := (sim_status w)(c := 3),
         sim_info := (sim_info w)(c := \<lparr>start_' = sim_clock w, end_' = sim_clock w + 1000\<rparr>),
         sim_queue := (sim_queue w)(c := q),
         sim_type := (sim_type w)(c := 0),
         sim_waits := (sim_waits w)(c := waits),
         sim_refs := (sim_refs w)(c := 1),
         sim_next := Suc c,
         sim_clock := sim_clock w + 1000000\<rparr>))"

definition sim_lookup :: "sim \<Rightarrow> queue_ptr \<Rightarrow> bool \<Rightarrow> handle option \<times> sim" where
  "sim_lookup w q retain =
     (case sim_last w q of
        None \<Rightarrow> (None, w)
      | Some c \<Rightarrow>
          (Some c, if retain then w\<lparr>sim_refs := (sim_refs w)(c := Suc (sim_refs w c))\<rparr> else w))"

definition sim_runtime :: "sim runtime" where
  "sim_runtime =
     \<lparr>CL_COMPLETE = 0,
      kMarkerDisableFlush = True,
      status = sim_status,
      notifyCmdQueue = (\<lambda>w h. (True, w)),
      awaitCompletion = (\<lambda>w h. Some (w\<lparr>sim_status := (sim_status w)(h := 0)\<rparr>)),
      profilingInfo = sim_info,
      queue = sim_queue,
      type = sim_type,
      new_Marker = (\<lambda>w q flag waits. sim_new w q waits),
      new_ProfileMarker = (\<lambda>w q flag. sim_new w q []),
      enqueue = (\<lambda>w c. w\<lparr>sim_last := (sim_last w)(sim_queue w c := Some c)\<rparr>),
      release = (\<lambda>w c. w\<lparr>sim_refs := (sim_refs w)(c := sim_refs w c - 1)\<rparr>),
      profiling_enabled = sim_profiling,
      getLastQueuedCommand = sim_lookup\<rparr>"

text \<open>The reference runtime with the wait of the spec: while a caller waits, the device
  brings every command one status closer to complete (status 0).\<close>

definition sim_advance :: "sim \<Rightarrow> sim" where
  "sim_advance w = w\<lparr>sim_status := (\<lambda>h. if sim_status w h \<le> 0 then 0 else sim_status w h - 1)\<rparr>"

definition sim_waiting :: "sim runtime" where
  "sim_waiting = sim_runtime\<lparr>awaitCompletion := wait_until_complete sim_status 0 sim_advance\<rparr>"

text \<open>No lock is held by another thread.\<close>

definition free :: "event_ptr \<Rightarrow> bool" where
  "free p = False"

text \<open>
  A state for concrete runs: queue 1 has timing enabled and last enqueued command 10, a
  kernel (type 4592) that completed with timestamps 2000000 and 5000000; command 11, on
  the same queue, completed with timestamps 6000000 and 9000000; command 12, on queue 2,
  is still running. Each holds one reference.
\<close>

definition sim0 :: sim where
  "sim0 =
     \<lparr>sim_status = (\<lambda>h. if h = 12 then 1 else 0),
      sim_info = (\<lambda>h. if h = 10 then \<lparr>start_' = 2000000, end_' = 5000000\<rparr>
                      else \<lparr>start_' = 6000000, end_' = 9000000\<rparr>),
      sim_queue = (\<lambda>h. if h = 12 then 2 else 1),
      sim_type = (\<lambda>h. 4592),
      sim_waits = (\<lambda>h. []),
      sim_refs = (\<lambda>h. 1),
      sim_last = (\<lambda>q. if q = 1 then Some 10 else None),
      sim_profiling = (\<lambda>q. q = 1),
      sim_next = 20,
      sim_clock = 12000000\<rparr>"

text \<open>Exact arithmetic on the reals in place of single precision, for concrete runs.\<close>

definition real_ops :: "real float_ops" where
  "real_ops = \<lparr>float_of_int64 = real_of_int, float_div = (/), float_1000000 = 1000000,
               float_0 = 0\<rparr>"

text \<open>An event bound to \<open>h\<close>, with timing enabled.\<close>

definition bound :: "handle \<Rightarrow> bool \<Rightarrow> Event" where
  "bound h r = \<lparr>flags = 0, event_' = Some h, recorded_' = r\<rparr>"

text \<open>
  Events for concrete runs: 1 and 4 recorded on command 10, 2 recorded on command 11,
  3 recorded on the running command 12, 5 and 6 bound to command 10 without a record,
  7 recorded with \<open>hipEventDisableTiming\<close> (2 in \<open>hip_flags\<close>), every other one
  never recorded.
\<close>

definition heap0 :: heap where
  "heap0 = (\<lambda>p.
     if p = 1 then bound 10 True
     else if p = 2 then bound 11 True
     else if p = 3 then bound 12 True
     else if p = 4 then bound 10 True
     else if p = 5 then bound 10 False
     else if p = 6 then bound 10 False
     else if p = 7 then \<lparr>flags = 2, event_' = Some 11, recorded_' = True\<rparr>
     else new_Event 0)"

section \<open>Creation: flag validation\<close>

lemma outside_iff:
  "(fl AND NOT s \<noteq> 0) \<longleftrightarrow> (\<exists>n. bit fl n \<and> \<not> bit s n)" for fl s :: "32 word"
proof
  assume "fl AND NOT s \<noteq> 0"
  then obtain n where "bit (fl AND NOT s) n"
    by (auto simp add: bit_eq_iff)
  then show "\<exists>n. bit fl n \<and> \<not> bit s n"
    by (auto simp add: bit_and_iff bit_not_iff)
next
  assume "\<exists>n. bit fl n \<and> \<not> bit s n"
  then obtain n where n: "bit fl n" "\<not> bit s n" by blast
  from n(1) have "n < 32" by (auto dest: bit_imp_le_length)
  with n have "bit (fl AND NOT s) n"
    by (simp add: bit_and_iff bit_not_iff)
  then show "fl AND NOT s \<noteq> 0" by auto
qed

lemma both_iff:
  "(fl AND (a OR b) = a OR b) \<longleftrightarrow> (fl AND a = a \<and> fl AND b = b)" for fl a b :: "32 word"
  by (auto simp add: bit_eq_iff bit_and_iff bit_or_iff)

text \<open>The test of lines 183 to 185, bit by bit.\<close>

lemma illegalFlags_iff:
  "illegalFlags fc fl \<longleftrightarrow>
     (\<exists>n. bit fl n \<and>
          \<not> (bit (hipEventDefault fc) n \<or> bit (hipEventBlockingSync fc) n \<or>
             bit (hipEventDisableTiming fc) n \<or> bit (hipEventReleaseToDevice fc) n \<or>
             bit (hipEventReleaseToSystem fc) n)) \<or>
     (fl AND hipEventReleaseToDevice fc = hipEventReleaseToDevice fc \<and>
      fl AND hipEventReleaseToSystem fc = hipEventReleaseToSystem fc)"
  unfolding illegalFlags_def Let_def outside_iff both_iff
  by (simp add: bit_or_iff)

text \<open>
  C5. Whatever the values of the five flag constants: on a null output slot
  \<open>ihipEventCreateWithFlags\<close> returns \<open>hipErrorInvalidValue\<close>; on a non-null slot it
  returns \<open>hipErrorInvalidValue\<close> exactly when some bit of the flags lies outside the five
  recognized constants, or the flags contain both release constants; and when it does not,
  it stores through the slot the address of a new event that carries the flags, a null
  handle and \<open>recorded\<close> false, and returns \<open>hipSuccess\<close> (with \<open>hipErrorOutOfMemory\<close>
  and no store when \<^verbatim>\<open>new\<close> yields a null pointer, lines 190 to 192).
\<close>

theorem create_checks_flags:
  "fst (ihipEventCreateWithFlags fc alloc hp None fl) = hipErrorInvalidValue \<and>
   (fst (ihipEventCreateWithFlags fc alloc hp (Some slot) fl) = hipErrorInvalidValue \<longleftrightarrow>
      (\<exists>n. bit fl n \<and>
           \<not> (bit (hipEventDefault fc) n \<or> bit (hipEventBlockingSync fc) n \<or>
              bit (hipEventDisableTiming fc) n \<or> bit (hipEventReleaseToDevice fc) n \<or>
              bit (hipEventReleaseToSystem fc) n)) \<or>
      (fl AND hipEventReleaseToDevice fc = hipEventReleaseToDevice fc \<and>
       fl AND hipEventReleaseToSystem fc = hipEventReleaseToSystem fc)) \<and>
   (fst (ihipEventCreateWithFlags fc alloc hp (Some slot) fl) \<noteq> hipErrorInvalidValue \<longrightarrow>
      (case alloc of
         Some e \<Rightarrow>
           ihipEventCreateWithFlags fc alloc hp (Some slot) fl =
             (hipSuccess, Some (slot, e),
              hp(e := \<lparr>flags = fl, event_' = None, recorded_' = False\<rparr>))
       | None \<Rightarrow>
           ihipEventCreateWithFlags fc alloc hp (Some slot) fl = (hipErrorOutOfMemory, None, hp)))"
  unfolding illegalFlags_iff [symmetric]
  by (simp add: ihipEventCreateWithFlags_def new_Event_def split: option.split)

text \<open>With HIP's constants, flags \<open>BlockingSync | DisableTiming\<close> and a slot at 3.\<close>

theorem create_checks_flags_witness:
  "fst (ihipEventCreateWithFlags hip_flags (Some 7) (\<lambda>p. new_Event 0) (Some 3) 3)
     \<noteq> hipErrorInvalidValue \<and>
   ihipEventCreateWithFlags hip_flags (Some 7) (\<lambda>p. new_Event 0) (Some 3) 3 =
     (hipSuccess, Some (3, 7),
      (\<lambda>p. new_Event 0)(7 := \<lparr>flags = 3, event_' = None, recorded_' = False\<rparr>))"
  using create_checks_flags [of hip_flags "Some 7" "\<lambda>p. new_Event 0" 3 3]
  by (simp add: ihipEventCreateWithFlags_def illegalFlags_def hip_flags_def new_Event_def)

section \<open>Elapsed time\<close>

text \<open>
  The \<^verbatim>\<open>uint64_t\<close> difference read as \<^verbatim>\<open>int64_t\<close> is the difference of the
  two timestamps whenever that difference fits in 64 signed bits.
\<close>

lemma sint_diff_in_range:
  fixes a b :: "64 word"
  assumes "- (2 ^ 63) \<le> uint a - uint b" and "uint a - uint b < 2 ^ 63"
  shows "sint (a - b) = uint a - uint b"
proof -
  have "sint (a - b) = signed_take_bit 63 (uint (a - b))"
    by (simp add: sint_uint)
  also have "uint (a - b) = take_bit 64 (uint a - uint b)"
    by (simp add: uint_word_ariths take_bit_eq_mod)
  also have "signed_take_bit 63 (take_bit 64 (uint a - uint b)) = signed_take_bit 63 (uint a - uint b)"
    by (simp add: signed_take_bit_take_bit)
  also have "\<dots> = uint a - uint b"
    using assms by (intro signed_take_bit_int_eq_self) simp_all
  finally show ?thesis .
qed

lemma either_flag:
  "((a OR b) AND c \<noteq> 0) \<longleftrightarrow> (a AND c \<noteq> 0 \<or> b AND c \<noteq> 0)" for a b c :: "32 word"
  by (auto simp add: bit_eq_iff bit_and_iff bit_or_iff)

lemma ready_frame:
  "ready (rt\<lparr>new_Marker := nm, enqueue := en, awaitCompletion := aw, release := rl\<rparr>) w h =
   ready rt w h"
  by (simp add: ready_def)

text \<open>
  C4. When start and stop are the same event object \<open>E\<close>, \<open>elapsedTime\<close> returns
  \<open>hipErrorInvalidHandle\<close> if the handle of \<open>E\<close> is null or its flags contain
  \<open>hipEventDisableTiming\<close>; otherwise it returns \<open>hipErrorNotReady\<close>, storing no
  value, if \<open>ready()\<close> is false, and \<open>hipSuccess\<close> with the value \<^verbatim>\<open>0.f\<close> if it
  is true.
\<close>

theorem elapsedTime_self:
  "(event_' (hp E) = None \<or> flags (hp E) AND hipEventDisableTiming fc \<noteq> 0 \<longrightarrow>
      elapsedTime rt fo fc hp w E E = Inr (hipErrorInvalidHandle, None, w)) \<and>
   (event_' (hp E) = Some h \<and> flags (hp E) AND hipEventDisableTiming fc = 0 \<longrightarrow>
      elapsedTime rt fo fc hp w E E =
        (if fst (ready rt w h) then Inr (hipSuccess, Some (float_0 fo), snd (ready rt w h))
         else Inr (hipErrorNotReady, None, snd (ready rt w h))))"
  by (auto simp add: elapsedTime_def split: option.split prod.split)

text \<open>A never recorded event, one with timing disabled, a running one and a complete one.\<close>

theorem elapsedTime_self_witness:
  "elapsedTime sim_runtime real_ops hip_flags heap0 sim0 8 8 = Inr (hipErrorInvalidHandle, None, sim0) \<and>
   elapsedTime sim_runtime real_ops hip_flags heap0 sim0 7 7 = Inr (hipErrorInvalidHandle, None, sim0) \<and>
   elapsedTime sim_runtime real_ops hip_flags heap0 sim0 3 3 = Inr (hipErrorNotReady, None, sim0) \<and>
   elapsedTime sim_runtime real_ops hip_flags heap0 sim0 1 1 = Inr (hipSuccess, Some 0, sim0)"
  using elapsedTime_self [where E = 8 and hp = heap0 and fc = hip_flags and rt = sim_runtime
      and w = sim0 and fo = real_ops]
    elapsedTime_self [where E = 7 and hp = heap0 and fc = hip_flags and rt = sim_runtime
      and w = sim0 and fo = real_ops]
    elapsedTime_self [where E = 3 and h = 12 and hp = heap0 and fc = hip_flags
      and rt = sim_runtime and w = sim0 and fo = real_ops]
    elapsedTime_self [where E = 1 and h = 10 and hp = heap0 and fc = hip_flags
      and rt = sim_runtime and w = sim0 and fo = real_ops]
  by (simp add: elapsedTime_def ready_def sim_runtime_def sim0_def heap0_def bound_def
      hip_flags_def real_ops_def new_Event_def)

text \<open>
  C3. For two distinct event objects, \<open>elapsedTime\<close> returns \<open>hipErrorInvalidHandle\<close>
  if either handle is null or either event's flags contain \<open>hipEventDisableTiming\<close>,
  whatever the status of the handles; and if both handles are set and neither event
  disables timing but \<open>ready()\<close> is false for the start event, or for the stop event
  after it, it returns \<open>hipErrorNotReady\<close> and stores no value.
\<close>

theorem elapsedTime_validation:
  assumes "this \<noteq> eStop"
  shows
  "(event_' (hp this) = None \<or> event_' (hp eStop) = None \<or>
    flags (hp this) AND hipEventDisableTiming fc \<noteq> 0 \<or>
    flags (hp eStop) AND hipEventDisableTiming fc \<noteq> 0 \<longrightarrow>
      elapsedTime rt fo fc hp w this eStop = Inr (hipErrorInvalidHandle, None, w)) \<and>
   (event_' (hp this) = Some h \<and> event_' (hp eStop) = Some g \<and>
    flags (hp this) AND hipEventDisableTiming fc = 0 \<and>
    flags (hp eStop) AND hipEventDisableTiming fc = 0 \<and>
    (\<not> fst (ready rt w h) \<or> \<not> fst (ready rt (snd (ready rt w h)) g)) \<longrightarrow>
      (\<exists>w'. elapsedTime rt fo fc hp w this eStop = Inr (hipErrorNotReady, None, w')))"
  using assms
  by (auto simp add: elapsedTime_def either_flag split: option.split prod.split)

text \<open>A stop event never recorded; a running start event against a stop event with timing
  disabled; a complete start event against a running stop event.\<close>

theorem elapsedTime_validation_witness:
  "elapsedTime sim_runtime real_ops hip_flags heap0 sim0 1 8 = Inr (hipErrorInvalidHandle, None, sim0) \<and>
   elapsedTime sim_runtime real_ops hip_flags heap0 sim0 3 7 = Inr (hipErrorInvalidHandle, None, sim0) \<and>
   elapsedTime sim_runtime real_ops hip_flags heap0 sim0 1 3 = Inr (hipErrorNotReady, None, sim0)"
  using elapsedTime_validation [where this = 1 and eStop = 8 and hp = heap0 and fc = hip_flags
      and rt = sim_runtime and w = sim0 and fo = real_ops]
    elapsedTime_validation [where this = 3 and eStop = 7 and hp = heap0 and fc = hip_flags
      and rt = sim_runtime and w = sim0 and fo = real_ops]
    elapsedTime_validation [where this = 1 and eStop = 3 and h = 10 and g = 12 and hp = heap0
      and fc = hip_flags and rt = sim_runtime and w = sim0 and fo = real_ops]
  by (simp add: elapsedTime_def ready_def sim_runtime_def sim0_def heap0_def bound_def
      hip_flags_def real_ops_def new_Event_def)

text \<open>
  C1. For two distinct event objects that pass the validation (both handles set, neither
  event disabling timing, both ready), with different handles and both events recorded,
  \<open>elapsedTime\<close> returns \<open>hipSuccess\<close> and stores the stop handle's end timestamp minus
  the start handle's end timestamp, converted to \<^verbatim>\<open>float\<close> and divided by
  \<^verbatim>\<open>1000000.f\<close>. The subtraction is the one of the code, on \<^verbatim>\<open>uint64_t\<close> and read
  as \<^verbatim>\<open>int64_t\<close>; it is the difference of the two timestamps whenever that fits in 64
  signed bits. The timestamps are read in the state the two readiness checks leave.
\<close>

theorem elapsedTime_recorded_pair:
  assumes "this \<noteq> eStop"
    and "event_' (hp this) = Some h" and "event_' (hp eStop) = Some g"
    and "flags (hp this) AND hipEventDisableTiming fc = 0"
    and "flags (hp eStop) AND hipEventDisableTiming fc = 0"
    and "ready rt w h = (True, w1)" and "ready rt w1 g = (True, w2)"
    and "h \<noteq> g" and "recorded_' (hp this)" and "recorded_' (hp eStop)"
  shows
    "elapsedTime rt fo fc hp w this eStop =
       Inr (hipSuccess,
            Some (float_div fo
                    (float_of_int64 fo
                       (sint (end_' (profilingInfo rt w2 g) - end_' (profilingInfo rt w2 h))))
                    (float_1000000 fo)),
            w2) \<and>
     (- (2 ^ 63) \<le> uint (end_' (profilingInfo rt w2 g)) - uint (end_' (profilingInfo rt w2 h)) \<and>
      uint (end_' (profilingInfo rt w2 g)) - uint (end_' (profilingInfo rt w2 h)) < 2 ^ 63 \<longrightarrow>
        elapsedTime rt fo fc hp w this eStop =
          Inr (hipSuccess,
               Some (float_div fo
                       (float_of_int64 fo
                          (uint (end_' (profilingInfo rt w2 g)) -
                           uint (end_' (profilingInfo rt w2 h))))
                       (float_1000000 fo)),
               w2))"
proof -
  have run: "elapsedTime rt fo fc hp w this eStop =
       Inr (hipSuccess,
            Some (ns_to_ms fo (end_' (profilingInfo rt w2 g) - end_' (profilingInfo rt w2 h))),
            w2)"
    using assms by (simp add: elapsedTime_def either_flag)
  then show ?thesis
    by (simp add: ns_to_ms_def sint_diff_in_range)
qed

text \<open>Events 1 and 2: end timestamps 5000000 and 9000000, four milliseconds.\<close>

theorem elapsedTime_recorded_pair_witness:
  "ready sim_runtime sim0 10 = (True, sim0) \<and> ready sim_runtime sim0 11 = (True, sim0) \<and>
   elapsedTime sim_runtime real_ops hip_flags heap0 sim0 1 2 = Inr (hipSuccess, Some 4, sim0)"
  using elapsedTime_recorded_pair [where this = 1 and eStop = 2 and hp = heap0 and h = 10
      and g = 11 and fc = hip_flags and rt = sim_runtime and w = sim0 and ?w1.0 = sim0
      and ?w2.0 = sim0 and fo = real_ops]
  by (simp add: ready_def sim_runtime_def sim0_def heap0_def bound_def hip_flags_def
      real_ops_def)

text \<open>
  C9. For two distinct event objects that pass the validation and share one handle, neither
  of them recorded, \<open>elapsedTime\<close> returns \<open>hipSuccess\<close> and stores the handle's end
  timestamp minus its start timestamp (the \<^verbatim>\<open>uint64_t\<close> difference read as
  \<^verbatim>\<open>int64_t\<close>), converted to \<^verbatim>\<open>float\<close> and divided by \<^verbatim>\<open>1000000.f\<close>. No
  marker is made: the state returned is the one the readiness checks leave, and the result
  is the same whatever creating, enqueuing, awaiting and releasing a command would do.
\<close>

theorem elapsedTime_shared_unrecorded:
  assumes "this \<noteq> eStop"
    and "event_' (hp this) = Some h" and "event_' (hp eStop) = Some h"
    and "flags (hp this) AND hipEventDisableTiming fc = 0"
    and "flags (hp eStop) AND hipEventDisableTiming fc = 0"
    and "ready rt w h = (True, w1)" and "ready rt w1 h = (True, w2)"
    and "\<not> recorded_' (hp this)" and "\<not> recorded_' (hp eStop)"
  shows
    "elapsedTime rt fo fc hp w this eStop =
       Inr (hipSuccess,
            Some (float_div fo
                    (float_of_int64 fo
                       (sint (end_' (profilingInfo rt w2 h) - start_' (profilingInfo rt w2 h))))
                    (float_1000000 fo)),
            w2) \<and>
     elapsedTime (rt\<lparr>new_Marker := nm, enqueue := en, awaitCompletion := aw, release := rl\<rparr>)
         fo fc hp w this eStop =
       elapsedTime rt fo fc hp w this eStop"
  using assms by (simp add: elapsedTime_def either_flag ns_to_ms_def ready_frame)

text \<open>Events 5 and 6 on command 10: timestamps 2000000 and 5000000, three milliseconds.\<close>

theorem elapsedTime_shared_unrecorded_witness:
  "ready sim_runtime sim0 10 = (True, sim0) \<and>
   elapsedTime sim_runtime real_ops hip_flags heap0 sim0 5 6 = Inr (hipSuccess, Some 3, sim0)"
  using elapsedTime_shared_unrecorded [where this = 5 and eStop = 6 and hp = heap0 and h = 10
      and fc = hip_flags and rt = sim_runtime and w = sim0 and ?w1.0 = sim0
      and ?w2.0 = sim0 and fo = real_ops]
  by (simp add: ready_def sim_runtime_def sim0_def heap0_def bound_def hip_flags_def
      real_ops_def)

text \<open>
  C2. For two distinct event objects that pass the validation and share one handle, at
  least one of them recorded, \<open>elapsedTime\<close> never returns an error code; it creates a
  marker on the queue that owns the shared handle and enqueues it, waits for it, and, when
  the marker is allocated and the wait returns, releases it and returns \<open>hipSuccess\<close> with
  the marker's end timestamp minus the start event's end timestamp (the \<^verbatim>\<open>uint64_t\<close>
  difference read as \<^verbatim>\<open>int64_t\<close>), converted to \<^verbatim>\<open>float\<close> and divided by
  \<^verbatim>\<open>1000000.f\<close>. As long as the wait does not return, neither does \<open>elapsedTime\<close>.
\<close>

theorem elapsedTime_shared_recorded:
  assumes "this \<noteq> eStop"
    and "event_' (hp this) = Some h" and "event_' (hp eStop) = Some h"
    and "flags (hp this) AND hipEventDisableTiming fc = 0"
    and "flags (hp eStop) AND hipEventDisableTiming fc = 0"
    and "ready rt w h = (True, w1)" and "ready rt w1 h = (True, w2)"
    and "recorded_' (hp this) \<or> recorded_' (hp eStop)"
  shows
    "(\<forall>r. elapsedTime rt fo fc hp w this eStop = Inr r \<longrightarrow> fst r = hipSuccess) \<and>
     (\<forall>command w3 w5.
        new_Marker rt w2 (queue rt w2 h) (kMarkerDisableFlush rt) [] = (Some command, w3) \<and>
        awaitCompletion rt (enqueue rt w3 command) command = Some w5 \<longrightarrow>
        elapsedTime rt fo fc hp w this eStop =
          Inr (hipSuccess,
               Some (float_div fo
                       (float_of_int64 fo
                          (sint (end_' (profilingInfo rt w5 command) -
                                 end_' (profilingInfo rt w5 h))))
                       (float_1000000 fo)),
               release rt w5 command)) \<and>
     (\<forall>command w3.
        new_Marker rt w2 (queue rt w2 h) (kMarkerDisableFlush rt) [] = (Some command, w3) \<and>
        awaitCompletion rt (enqueue rt w3 command) command = None \<longrightarrow>
        elapsedTime rt fo fc hp w this eStop = Inl NeverReturns)"
  using assms
  by (auto simp add: elapsedTime_def either_flag ns_to_ms_def split: option.splits prod.splits)

text \<open>Events 1 and 4 on command 10 (end 5000000): the marker is command 20 on queue 1,
  with end timestamp 12001000.\<close>

theorem elapsedTime_shared_recorded_witness:
  "(case elapsedTime sim_runtime real_ops hip_flags heap0 sim0 1 4 of
      Inr (r, ms, w') \<Rightarrow>
        r = hipSuccess \<and> ms = Some (7001 / 1000) \<and> sim_last w' 1 = Some 20 \<and>
        sim_status w' 20 = 0 \<and> sim_refs w' 20 = 0
    | Inl f \<Rightarrow> False)"
  using elapsedTime_shared_recorded [where this = 1 and eStop = 4 and hp = heap0 and h = 10
      and fc = hip_flags and rt = sim_runtime and w = sim0 and ?w1.0 = sim0
      and ?w2.0 = sim0 and fo = real_ops]
  by (simp add: elapsedTime_def ns_to_ms_def ready_def sim_runtime_def sim0_def heap0_def
      bound_def hip_flags_def real_ops_def sim_new_def)

section \<open>Query and synchronize\<close>

text \<open>The wait of the spec ends in a state where the handle is complete, and ends at once
  where it already is.\<close>

lemma wait_until_complete_status:
  fixes st :: "'w \<Rightarrow> handle \<Rightarrow> int"
  assumes "wait_until_complete st target advance w h = Some w1"
  shows "st w1 h = target"
proof (rule wait_until_complete.raw_induct
    [where P = "\<lambda>st target advance w h y. st y h = target", OF _ assms])
  fix f :: "('w \<Rightarrow> handle \<Rightarrow> int) \<Rightarrow> int \<Rightarrow> ('w \<Rightarrow> 'w) \<Rightarrow> 'w \<Rightarrow> handle \<Rightarrow> 'w option"
    and s :: "'w \<Rightarrow> handle \<Rightarrow> int" and c :: int and adv :: "'w \<Rightarrow> 'w" and v y :: 'w
    and k :: handle
  assume IH: "\<And>s c adv v k y. f s c adv v k = Some y \<Longrightarrow> s y k = c"
    and unfold: "(if s v k = c then Some v else f s c adv (adv v) k) = Some y"
  show "s y k = c"
  proof (cases "s v k = c")
    case True
    with unfold show ?thesis by simp
  next
    case False
    with unfold have "f s c adv (adv v) k = Some y" by simp
    then show ?thesis by (rule IH)
  qed
qed

lemma wait_until_complete_at_once:
  "st w h = target \<Longrightarrow> wait_until_complete st target advance w h = Some w"
  by (subst wait_until_complete.simps) simp

lemma wait_until_complete_later:
  "st w h \<noteq> target \<Longrightarrow>
   wait_until_complete st target advance w h = wait_until_complete st target advance (advance w) h"
  by (subst wait_until_complete.simps) simp

text \<open>
  C6, as the code has it. \<open>query\<close> and \<open>synchronize\<close> first take the event's lock: while
  another thread holds it they wait for it. With the lock free and the handle null, both
  return \<open>hipSuccess\<close> and leave the runtime's state as it is, whatever the runtime and
  its state. With the lock free, \<open>query\<close> returns, and what it returns does not depend
  on the blocking call \<open>awaitCompletion\<close>: it never waits for a command. And on a
  runtime whose \<open>awaitCompletion\<close> is the wait of the spec, whatever the device does
  meanwhile, a \<open>synchronize\<close> that has returned returns \<open>hipSuccess\<close> again from the
  state it left, leaving that state as it is, once it has the lock.
\<close>

theorem query_synchronize_under_lock:
  "(held E \<longrightarrow>
      query rt held hp w E = Inl (WaitsForLock E) \<and>
      synchronize rt held hp w E = Inl (WaitsForLock E)) \<and>
   (\<not> held E \<and> event_' (hp E) = None \<longrightarrow>
      query rt held hp w E = Inr (hipSuccess, w) \<and>
      synchronize rt held hp w E = Inr (hipSuccess, w)) \<and>
   (\<not> held E \<longrightarrow> (\<exists>r. query rt held hp w E = Inr r)) \<and>
   query (rt\<lparr>awaitCompletion := aw\<rparr>) held hp w E = query rt held hp w E \<and>
   (\<not> held E \<and>
    awaitCompletion rt = wait_until_complete (status rt) (CL_COMPLETE rt) advance \<and>
    synchronize rt held hp w E = Inr (r, w1) \<longrightarrow>
      synchronize rt held hp w1 E = Inr (hipSuccess, w1))"
proof -
  have again: "synchronize rt held hp w1 E = Inr (hipSuccess, w1)"
    if free: "\<not> held E"
      and wait: "awaitCompletion rt = wait_until_complete (status rt) (CL_COMPLETE rt) advance"
      and first: "synchronize rt held hp w E = Inr (r, w1)"
  proof (cases "event_' (hp E)")
    case None
    with free show ?thesis by (simp add: synchronize_def)
  next
    case (Some h)
    with free first wait
    have "wait_until_complete (status rt) (CL_COMPLETE rt) advance w h = Some w1"
      by (simp add: synchronize_def split: option.splits)
    then have "status rt w1 h = CL_COMPLETE rt"
      by (rule wait_until_complete_status)
    then have "awaitCompletion rt w1 h = Some w1"
      by (simp add: wait wait_until_complete_at_once)
    with free Some show ?thesis by (simp add: synchronize_def)
  qed
  have rest: "(held E \<longrightarrow>
      query rt held hp w E = Inl (WaitsForLock E) \<and>
      synchronize rt held hp w E = Inl (WaitsForLock E)) \<and>
   (\<not> held E \<and> event_' (hp E) = None \<longrightarrow>
      query rt held hp w E = Inr (hipSuccess, w) \<and>
      synchronize rt held hp w E = Inr (hipSuccess, w)) \<and>
   (\<not> held E \<longrightarrow> (\<exists>r. query rt held hp w E = Inr r)) \<and>
   query (rt\<lparr>awaitCompletion := aw\<rparr>) held hp w E = query rt held hp w E"
    by (auto simp add: query_def synchronize_def ready_def split: option.split prod.split)
  from rest again show ?thesis by blast
qed

text \<open>Event 8 was never recorded; event 3 is bound to the running command 12, which one
  step of the device completes; the lock of event 1 is held by another thread.\<close>

theorem query_synchronize_under_lock_witness:
  "query sim_waiting free heap0 sim0 8 = Inr (hipSuccess, sim0) \<and>
   synchronize sim_waiting free heap0 sim0 8 = Inr (hipSuccess, sim0) \<and>
   query sim_waiting free heap0 sim0 3 = Inr (hipErrorNotReady, sim0) \<and>
   synchronize sim_waiting free heap0 sim0 3 = Inr (hipSuccess, sim_advance sim0) \<and>
   synchronize sim_waiting free heap0 (sim_advance sim0) 3 = Inr (hipSuccess, sim_advance sim0) \<and>
   query sim_waiting (\<lambda>p. p = 1) heap0 sim0 1 = Inl (WaitsForLock 1)"
proof -
  have wait: "awaitCompletion sim_waiting =
      wait_until_complete (status sim_waiting) (CL_COMPLETE sim_waiting) sim_advance"
    by (simp add: sim_waiting_def sim_runtime_def)
  have unbound: "event_' (heap0 8) = None" and bound3: "event_' (heap0 3) = Some 12"
    by (simp_all add: heap0_def new_Event_def bound_def)
  have running: "sim_status sim0 12 \<noteq> 0" and finished: "sim_status (sim_advance sim0) 12 = 0"
    by (simp_all add: sim0_def sim_advance_def)
  have first: "synchronize sim_waiting free heap0 sim0 3 = Inr (hipSuccess, sim_advance sim0)"
    using running finished bound3
    by (simp add: synchronize_def free_def sim_waiting_def wait_until_complete_later
        wait_until_complete_at_once)
  have q3: "query sim_waiting free heap0 sim0 3 = Inr (hipErrorNotReady, sim0)"
    by (simp add: query_def ready_def free_def sim_waiting_def sim_runtime_def sim0_def
        heap0_def bound_def)
  from query_synchronize_under_lock [where held = free and hp = heap0 and E = 8
      and rt = sim_waiting and w = sim0]
    query_synchronize_under_lock [where held = free and hp = heap0 and E = 3
      and rt = sim_waiting and w = sim0 and advance = sim_advance and r = hipSuccess
      and ?w1.0 = "sim_advance sim0"]
    query_synchronize_under_lock [where held = "\<lambda>p. p = 1" and hp = heap0 and E = 1
      and rt = sim_waiting and w = sim0]
    wait unbound first q3
  show ?thesis by (simp add: free_def)
qed

text \<open>
  C6 as stated fails: another thread holds the locks of events 3 and 8 (one inside
  \<open>synchronize\<close> on event 3, whose command 12 is still running, keeps that lock for
  the whole of its wait). Event 8 was never recorded, yet neither \<open>query\<close> nor
  \<open>synchronize\<close> on it returns success: both wait for the lock; and \<open>query\<close> on
  event 3 waits too.
\<close>

theorem query_waits_for_lock:
  "event_' (heap0 8) = None \<and>
   query sim_runtime (\<lambda>p. p = 3 \<or> p = 8) heap0 sim0 8 = Inl (WaitsForLock 8) \<and>
   synchronize sim_runtime (\<lambda>p. p = 3 \<or> p = 8) heap0 sim0 8 = Inl (WaitsForLock 8) \<and>
   query sim_runtime (\<lambda>p. p = 3 \<or> p = 8) heap0 sim0 3 = Inl (WaitsForLock 3) \<and>
   (\<nexists>r. query sim_runtime (\<lambda>p. p = 3 \<or> p = 8) heap0 sim0 8 = Inr r) \<and>
   (\<nexists>r. query sim_runtime (\<lambda>p. p = 3 \<or> p = 8) heap0 sim0 3 = Inr r)"
  by (simp add: query_def synchronize_def heap0_def new_Event_def)

section \<open>Stream wait\<close>

text \<open>
  C7, as the code has it. \<open>streamWait\<close> returns \<open>hipSuccess\<close> and leaves the
  runtime's state as it is when the event's handle is null or the handle's queue is the
  target queue; it does so without taking the lock. Otherwise it takes the event's lock,
  waiting for it while another thread holds it. With the lock it nudges the handle's
  queue; if that fails it returns \<open>hipErrorLaunchOutOfResources\<close>; if it succeeds it
  creates on the target queue a marker whose wait list is the event's handle alone,
  enqueues it, releases its own reference and returns \<open>hipSuccess\<close> (or
  \<open>hipErrorOutOfMemory\<close> when \<^verbatim>\<open>new\<close> yields a null pointer, lines 131 to 133).
  With the lock free it returns, and what it returns never depends on the blocking call
  \<open>awaitCompletion\<close>: it never waits for a command.
\<close>

theorem streamWait_under_lock:
  "(event_' (hp E) = None \<or> (\<exists>h. event_' (hp E) = Some h \<and> queue rt w h = hostQueue) \<longrightarrow>
      streamWait rt held hp w E hostQueue fl = Inr (hipSuccess, w)) \<and>
   (event_' (hp E) = Some h \<and> queue rt w h \<noteq> hostQueue \<and> held E \<longrightarrow>
      streamWait rt held hp w E hostQueue fl = Inl (WaitsForLock E)) \<and>
   (event_' (hp E) = Some h \<and> queue rt w h \<noteq> hostQueue \<and> \<not> held E \<longrightarrow>
      (case notifyCmdQueue rt w h of
         (False, w1) \<Rightarrow>
           streamWait rt held hp w E hostQueue fl = Inr (hipErrorLaunchOutOfResources, w1)
       | (True, w1) \<Rightarrow>
           (case new_Marker rt w1 hostQueue (kMarkerDisableFlush rt) [h] of
              (Some command, w2) \<Rightarrow>
                streamWait rt held hp w E hostQueue fl =
                  Inr (hipSuccess, release rt (enqueue rt w2 command) command)
            | (None, w2) \<Rightarrow>
                streamWait rt held hp w E hostQueue fl = Inr (hipErrorOutOfMemory, w2)))) \<and>
   (\<not> held E \<longrightarrow> (\<exists>r. streamWait rt held hp w E hostQueue fl = Inr r)) \<and>
   streamWait (rt\<lparr>awaitCompletion := aw\<rparr>) held hp w E hostQueue fl =
     streamWait rt held hp w E hostQueue fl"
  by (auto simp add: streamWait_def split: option.split prod.split bool.split)

text \<open>A never recorded event; event 1 (on queue 1) against queue 1, its lock held by
  another thread; event 2 (on queue 1) against queue 2, its lock held by another thread;
  event 1 against queue 2 with the lock free, where the marker is command 20.\<close>

theorem streamWait_under_lock_witness:
  "streamWait sim_runtime free heap0 sim0 8 2 0 = Inr (hipSuccess, sim0) \<and>
   streamWait sim_runtime (\<lambda>p. True) heap0 sim0 1 1 0 = Inr (hipSuccess, sim0) \<and>
   streamWait sim_runtime (\<lambda>p. p = 2) heap0 sim0 2 2 0 = Inl (WaitsForLock 2) \<and>
   (case streamWait sim_runtime free heap0 sim0 1 2 0 of
      Inr (r, w') \<Rightarrow>
        r = hipSuccess \<and> sim_last w' 2 = Some 20 \<and> sim_waits w' 20 = [10] \<and>
        sim_queue w' 20 = 2 \<and> sim_last sim0 2 = None
    | Inl f \<Rightarrow> False)"
  using streamWait_under_lock [where held = free and hp = heap0 and E = 8 and rt = sim_runtime
      and w = sim0 and hostQueue = 2 and fl = 0]
    streamWait_under_lock [where held = "\<lambda>p. True" and hp = heap0 and E = 1
      and rt = sim_runtime and w = sim0 and hostQueue = 1 and fl = 0]
    streamWait_under_lock [where held = "\<lambda>p. p = 2" and hp = heap0 and E = 2 and h = 11
      and rt = sim_runtime and w = sim0 and hostQueue = 2 and fl = 0]
    streamWait_under_lock [where held = free and hp = heap0 and E = 1 and h = 10
      and rt = sim_runtime and w = sim0 and hostQueue = 2 and fl = 0]
  by (simp add: streamWait_def free_def sim_runtime_def sim0_def heap0_def bound_def
      new_Event_def sim_new_def)

text \<open>
  C7 as stated fails: event 3 is bound to command 12 on queue 2 and another thread holds
  its lock (inside \<open>synchronize\<close>, for the whole of its wait for command 12).
  \<open>streamWait\<close> on event 3 against queue 1 waits for that lock: the calling thread
  is blocked.
\<close>

theorem streamWait_waits_for_lock:
  "event_' (heap0 3) = Some 12 \<and> queue sim_runtime sim0 12 \<noteq> 1 \<and>
   streamWait sim_runtime (\<lambda>p. p = 3) heap0 sim0 3 1 0 = Inl (WaitsForLock 3) \<and>
   (\<nexists>r. streamWait sim_runtime (\<lambda>p. p = 3) heap0 sim0 3 1 0 = Inr r)"
  by (simp add: streamWait_def sim_runtime_def sim0_def heap0_def bound_def)

section \<open>Marker attachment\<close>

text \<open>
  Recording with no command given on a queue with timing enabled, whose last queued command
  \<open>c\<close> is a user-visible one: the command is looked up with \<^verbatim>\<open>retain = true\<close>.
  When the event is already bound to \<open>c\<close> the call returns in the state the lookup
  left, for every runtime: the lookup's result is not released. When the lookup's result is
  discarded for a new marker, it is released first.
\<close>

lemma markerCommand_reuse:
  assumes "profiling_enabled rt w q"
    and "getLastQueuedCommand rt w q True = (Some c, w1)"
    and "type rt w1 c \<noteq> 0"
  shows "markerCommand rt w q None = Inr (c, w1)"
  using assms by (simp add: markerCommand_def)

lemma addMarker_same_handle:
  assumes "markerCommand rt w q command = Inr (c, w1)"
    and "event_' (hp this) = Some c"
  shows "addMarker rt hp w this q command record = Inr (hp, w1)"
  using assms by (simp add: addMarker_def)

lemma addMarker_rerecord_keeps_lookup_reference:
  assumes "profiling_enabled rt w q"
    and "getLastQueuedCommand rt w q True = (Some c, w1)"
    and "type rt w1 c \<noteq> 0"
    and "event_' (hp this) = Some c"
  shows "addMarker rt hp w this q None record = Inr (hp, w1)"
  using assms by (simp add: addMarker_same_handle markerCommand_reuse)

lemma addMarker_discard_releases:
  assumes "profiling_enabled rt w q"
    and "getLastQueuedCommand rt w q True = (Some c, w1)"
    and "type rt w1 c = 0"
  shows "markerCommand rt w q None = freshMarker rt (release rt w1 c) q"
  using assms by (simp add: markerCommand_def)

text \<open>
  C8. Recording an event twice at the same queue position, on the reference runtime: a
  never recorded event (at address 1) is recorded on queue 1, whose last queued command is
  the kernel 10, with one reference. The first record binds the event to 10 and the count
  is 2. The second record resolves to the same handle and leaves the binding as it is, but
  the count is 3: the reference taken by the lookup is not given back.
\<close>

theorem addMarker_rerecord_run:
  "(case addMarker sim_runtime (\<lambda>p. new_Event 0) sim0 1 1 None True of
      Inr (hp1, w1) \<Rightarrow>
        event_' (hp1 1) = Some 10 \<and> recorded_' (hp1 1) \<and>
        sim_refs sim0 10 = 1 \<and> sim_refs w1 10 = 2 \<and>
        (case addMarker sim_runtime hp1 w1 1 1 None True of
           Inr (hp2, w2) \<Rightarrow> hp2 = hp1 \<and> sim_refs w2 10 = 3
         | Inl f \<Rightarrow> False)
    | Inl f \<Rightarrow> False)"
  by (simp add: addMarker_def markerCommand_def sim_runtime_def sim0_def new_Event_def
      sim_lookup_def)

section \<open>Two threads, arguments exchanged\<close>

text \<open>Two events that share a handle: the order of the arguments makes no difference to
  anything \<open>elapsedTime\<close> does.\<close>

lemma elapsedTime_shared_symmetric:
  assumes "event_' (hp this) = Some h" and "event_' (hp eStop) = Some h"
  shows "elapsedTime rt fo fc hp w this eStop = elapsedTime rt fo fc hp w eStop this"
proof (cases "this = eStop")
  case True
  then show ?thesis by simp
next
  case False
  then have "eStop \<noteq> this" by simp
  with False assms show ?thesis
    by (auto simp add: elapsedTime_def or.commute split: prod.splits)
qed

lemma run_Nil: "run rt fo fc hp args [] m = m"
  by (simp add: run_def)

lemma run_Cons:
  "run rt fo fc hp args (t # ts) m =
     run rt fo fc hp args ts
       (case elapsedTime_step rt fo fc hp args t m of None \<Rightarrow> m | Some m' \<Rightarrow> m')"
  by (simp add: run_def)

lemma run_stuck:
  assumes "elapsedTime_step rt fo fc hp args T1 m = None"
    and "elapsedTime_step rt fo fc hp args T2 m = None"
  shows "run rt fo fc hp args schedule m = m"
proof (induction schedule)
  case Nil
  show ?case by (simp add: run_Nil)
next
  case (Cons t ts)
  from assms have "elapsedTime_step rt fo fc hp args t m = None"
    by (cases t) simp_all
  with Cons show ?case by (simp add: run_Cons)
qed

text \<open>
  Thread \<open>T1\<close> calls \<open>elapsedTime\<close> on the distinct events \<open>(a, b)\<close> and thread
  \<open>T2\<close> on \<open>(b, a)\<close>. When each has run line 60, each holds the lock the other asks
  for at line 78, whatever the runtime, the events and the state: no schedule moves
  either of them again, and neither returns.
\<close>

lemma reversed_pair_deadlock:
  assumes "a \<noteq> b"
  shows "let m = run rt fo fc hp (reversed a b) [T1, T2] (start w) in
           pos m T1 = Line78 \<and> pos m T2 = Line78 \<and> owner m a = Some T1 \<and>
           owner m b = Some T2 \<and> returned m T1 = None \<and> returned m T2 = None \<and>
           (\<forall>schedule. run rt fo fc hp (reversed a b) schedule m = m)"
proof -
  define m where "m = run rt fo fc hp (reversed a b) [T1, T2] (start w)"
  have both: "(\<lambda>t. Line60)(T1 := Line78, T2 := Line78) = (\<lambda>t. Line78)"
  proof
    fix t
    show "((\<lambda>t. Line60)(T1 := Line78, T2 := Line78)) t = Line78"
      by (cases t) simp_all
  qed
  have m: "m = \<lparr>owner = (\<lambda>p. None)(a := Some T1, b := Some T2), world = w,
                pos = (\<lambda>t. Line78), returned = (\<lambda>t. None)\<rparr>"
    using assms
    by (simp add: m_def run_Cons run_Nil elapsedTime_step_def reversed_def start_def both)
  have "elapsedTime_step rt fo fc hp (reversed a b) T1 m = None"
    and "elapsedTime_step rt fo fc hp (reversed a b) T2 m = None"
    using assms by (simp_all add: m elapsedTime_step_def reversed_def)
  then have "\<forall>schedule. run rt fo fc hp (reversed a b) schedule m = m"
    by (simp add: run_stuck)
  moreover have "pos m T1 = Line78 \<and> pos m T2 = Line78 \<and> owner m a = Some T1 \<and>
      owner m b = Some T2 \<and> returned m T1 = None \<and> returned m T2 = None"
    using assms by (simp add: m)
  ultimately show ?thesis
    unfolding m_def by (simp add: Let_def)
qed

text \<open>
  C10, on the reference runtime. Events 1 and 2 are distinct, recorded and complete, on
  different handles. Thread \<open>T1\<close> calls \<open>elapsedTime\<close> on \<open>(1, 2)\<close> and thread
  \<open>T2\<close> on \<open>(2, 1)\<close>. After \<open>T1\<close> and then \<open>T2\<close> have run line 60, both are at
  line 78, \<open>T1\<close> owning the lock of event 1 and \<open>T2\<close> that of event 2; neither has
  returned, and under every schedule the machine stays as it is: a deadlock. (When \<open>T1\<close>
  runs to its return before \<open>T2\<close> starts, the results are 4 and -4 milliseconds.)
  Nor are the results sign-inverted in the other two branches: events 5 (bound to command
  10, not recorded) and 2 give 7 milliseconds one way and -1 the other; events 1 and 4,
  recorded on the same command, give 7.001 milliseconds either way from the same state.
\<close>

theorem elapsedTime_reversed_pair_run:
  "(let m = run sim_runtime real_ops hip_flags heap0 (reversed 1 2) [T1, T2] (start sim0) in
      pos m T1 = Line78 \<and> pos m T2 = Line78 \<and> owner m 1 = Some T1 \<and> owner m 2 = Some T2 \<and>
      returned m T1 = None \<and> returned m T2 = None \<and>
      (\<forall>schedule. run sim_runtime real_ops hip_flags heap0 (reversed 1 2) schedule m = m)) \<and>
   (let m = run sim_runtime real_ops hip_flags heap0 (reversed 1 2) [T1, T1, T1, T2, T2, T2]
              (start sim0) in
      returned m T1 = Some (hipSuccess, Some 4) \<and> returned m T2 = Some (hipSuccess, Some (- 4))) \<and>
   elapsedTime sim_runtime real_ops hip_flags heap0 sim0 5 2 = Inr (hipSuccess, Some 7, sim0) \<and>
   elapsedTime sim_runtime real_ops hip_flags heap0 sim0 2 5 = Inr (hipSuccess, Some (- 1), sim0) \<and>
   map_sum id fst (elapsedTime sim_runtime real_ops hip_flags heap0 sim0 1 4) = Inr hipSuccess \<and>
   map_sum id (fst \<circ> snd) (elapsedTime sim_runtime real_ops hip_flags heap0 sim0 1 4) =
     Inr (Some (7001 / 1000)) \<and>
   map_sum id (fst \<circ> snd) (elapsedTime sim_runtime real_ops hip_flags heap0 sim0 4 1) =
     Inr (Some (7001 / 1000))"
proof -
  have deadlock: "let m = run sim_runtime real_ops hip_flags heap0 (reversed 1 2) [T1, T2] (start sim0) in
      pos m T1 = Line78 \<and> pos m T2 = Line78 \<and> owner m 1 = Some T1 \<and> owner m 2 = Some T2 \<and>
      returned m T1 = None \<and> returned m T2 = None \<and>
      (\<forall>schedule. run sim_runtime real_ops hip_flags heap0 (reversed 1 2) schedule m = m)"
    using reversed_pair_deadlock [where a = 1 and b = 2 and rt = sim_runtime and fo = real_ops
        and fc = hip_flags and hp = heap0 and w = sim0]
    by simp
  have serial: "let m = run sim_runtime real_ops hip_flags heap0 (reversed 1 2) [T1, T1, T1, T2, T2, T2]
              (start sim0) in
      returned m T1 = Some (hipSuccess, Some 4) \<and> returned m T2 = Some (hipSuccess, Some (- 4))"
    by (simp add: run_Cons run_Nil elapsedTime_step_def reversed_def start_def elapsedTime_def
        ns_to_ms_def ready_def sim_runtime_def sim0_def heap0_def bound_def hip_flags_def
        real_ops_def)
  have mixed: "elapsedTime sim_runtime real_ops hip_flags heap0 sim0 5 2 = Inr (hipSuccess, Some 7, sim0)"
    "elapsedTime sim_runtime real_ops hip_flags heap0 sim0 2 5 = Inr (hipSuccess, Some (- 1), sim0)"
    by (simp_all add: elapsedTime_def ns_to_ms_def ready_def sim_runtime_def sim0_def heap0_def
        bound_def hip_flags_def real_ops_def)
  have shared: "map_sum id fst (elapsedTime sim_runtime real_ops hip_flags heap0 sim0 1 4) = Inr hipSuccess"
    "map_sum id (fst \<circ> snd) (elapsedTime sim_runtime real_ops hip_flags heap0 sim0 1 4) =
       Inr (Some (7001 / 1000))"
    "map_sum id (fst \<circ> snd) (elapsedTime sim_runtime real_ops hip_flags heap0 sim0 4 1) =
       Inr (Some (7001 / 1000))"
    by (simp_all add: elapsedTime_def ns_to_ms_def ready_def sim_runtime_def sim0_def heap0_def
        bound_def hip_flags_def real_ops_def sim_new_def)
  from deadlock serial mixed shared show ?thesis by blast
qed

end
